theory Spec2Isabelle
  imports Main "HOL-Library.Sublist"
begin

section \<open>Python values, exceptions and the log\<close>

text \<open>
  The settings of Pelican are a Python dictionary from key names to heterogeneous values.
  Only the shapes of value that the orchestrator inspects are modelled: \<open>None\<close>, booleans,
  integers, (byte) strings and lists.
\<close>

datatype pyval = PyNone | PyBool bool | PyInt int | PyStr string | PyList "pyval list"

text \<open>Python's truth value testing, as used by \<open>if x\<close>, \<open>not x\<close> and \<open>x or y\<close>.\<close>

fun truthy :: "pyval \<Rightarrow> bool" where
  "truthy PyNone = False"
| "truthy (PyBool b) = b"
| "truthy (PyInt i) = (i \<noteq> 0)"
| "truthy (PyStr s) = (s \<noteq> [])"
| "truthy (PyList xs) = (xs \<noteq> [])"

text \<open>\<open>x or y\<close> on values: \<open>x\<close> when it is truthy, else \<open>y\<close>.\<close>

definition py_or :: "pyval \<Rightarrow> pyval \<Rightarrow> pyval" where
  "py_or x y = (if truthy x then x else y)"

text \<open>
  Exceptions carry their class, their message and the optional attribute \<open>exitcode\<close> that
  \<open>main\<close> reads with \<open>getattr(e, 'exitcode', 1)\<close>. In Python 2.5 and later
  \<open>KeyboardInterrupt\<close> and \<open>SystemExit\<close> do not derive from \<open>Exception\<close>.
\<close>

datatype exn_class =
  Exception | KeyError | TypeError | AttributeError | UnicodeDecodeError
  | KeyboardInterrupt | SystemExit
  | OtherException string

datatype exn = Exn (exn_class: exn_class) (exn_msg: string) (exitcode: "pyval option")

fun is_Exception :: "exn_class \<Rightarrow> bool" where
  "is_Exception KeyboardInterrupt = False"
| "is_Exception SystemExit = False"
| "is_Exception _ = True"

datatype loglevel = DEBUG | INFO | WARNING | ERROR | CRITICAL

type_synonym log_record = "loglevel \<times> string"

type_synonym settings = "string \<rightharpoonup> pyval"

text \<open>\<open>settings[key]\<close>: a missing key raises \<open>KeyError\<close>.\<close>

definition getitem :: "settings \<Rightarrow> string \<Rightarrow> exn + pyval" where
  "getitem s k = (case s k of None \<Rightarrow> Inl (Exn KeyError k None) | Some v \<Rightarrow> Inr v)"

text \<open>\<open>settings.get(key, False)\<close> used as a condition.\<close>

definition get_flag :: "settings \<Rightarrow> string \<Rightarrow> bool" where
  "get_flag s k = (case s k of None \<Rightarrow> False | Some v \<Rightarrow> truthy v)"

section \<open>The regular expressions of the permalink migration\<close>

text \<open>\<open>\w\<close> of a byte-string pattern without flags: \<open>[a-zA-Z0-9_]\<close>.\<close>

definition is_word_char :: "char \<Rightarrow> bool" where
  "is_word_char c = (let n = (of_char c :: nat) in
     (48 \<le> n \<and> n \<le> 57) \<or> (65 \<le> n \<and> n \<le> 90) \<or> n = 95 \<or> (97 \<le> n \<and> n \<le> 122))"

text \<open>The character class \<open>[A-z]\<close>: every code from 65 to 122, the six punctuation
  characters between \<open>Z\<close> and \<open>a\<close> included.\<close>

definition in_A_z :: "char \<Rightarrow> bool" where
  "in_A_z c = (let n = (of_char c :: nat) in 65 \<le> n \<and> n \<le> 122)"

text \<open>
  The pattern \<open>%\((\w+)\)s\<close> after its leading \<open>%\<close>: an opening parenthesis, the longest
  non-empty run of word characters (a shorter run would be followed by a word character,
  never by the closing parenthesis, so backtracking finds nothing more), then \<open>)s\<close>.
  The result is the group and the text after the match.
\<close>

definition match_named :: "string \<Rightarrow> (string \<times> string) option" where
  "match_named cs = (case cs of
       [] \<Rightarrow> None
     | c # r \<Rightarrow>
         if c = CHR ''('' then
           (let name = takeWhile is_word_char r; rest = dropWhile is_word_char r in
            if name = [] then None
            else (case rest of
                    a # b # rest' \<Rightarrow>
                      if a = CHR '')'' \<and> b = CHR ''s'' then Some (name, rest') else None
                  | _ \<Rightarrow> None))
         else None)"

text \<open>\<open>re.sub('%\((\w+)\)s', '{\g<1>}', structure)\<close>: the leftmost matches, left to right,
  without overlap.\<close>

function sub_named :: "string \<Rightarrow> string" where
  "sub_named [] = []"
| "sub_named (c # cs) =
     (if c = CHR ''%'' then
        (case match_named cs of
           Some (name, rest) \<Rightarrow> ''{'' @ name @ ''}'' @ sub_named rest
         | None \<Rightarrow> c # sub_named cs)
      else c # sub_named cs)"
  by pat_completeness auto
termination
proof (relation "measure length")
  show "wf (measure (length :: string \<Rightarrow> nat))" by simp
next
  fix c :: char and cs x2 name rest
  assume m: "match_named cs = Some x2" and x2: "(name, rest) = x2"
  from m x2 obtain r where cs: "cs = CHR ''('' # r"
    by (auto simp: match_named_def split: list.splits if_splits)
  from m x2 cs have "\<exists>a b. dropWhile is_word_char r = a # b # rest"
    by (auto simp: match_named_def Let_def split: list.splits if_splits)
  then obtain a b where d: "dropWhile is_word_char r = a # b # rest" by blast
  have "length (dropWhile is_word_char r) \<le> length r" by (rule length_dropWhile_le)
  with d cs show "(rest, c # cs) \<in> measure length" by simp
qed simp_all

text \<open>\<open>re.sub('(%[A-z])', '{date:\g<1>}', structure)\<close>.\<close>

fun sub_strftime :: "string \<Rightarrow> string" where
  "sub_strftime [] = []"
| "sub_strftime [c] = [c]"
| "sub_strftime (a # b # cs) =
     (if a = CHR ''%'' \<and> in_A_z b then ''{date:%'' @ [b] @ ''}'' @ sub_strftime cs
      else a # sub_strftime (b # cs))"

text \<open>\<open>re.sub('^/', '', structure)\<close>: without the multi-line flag \<open>^\<close> matches at the
  start of the string only, so at most one separator goes.\<close>

fun strip_slash :: "string \<Rightarrow> string" where
  "strip_slash [] = []"
| "strip_slash (c # cs) = (if c = CHR ''/'' then cs else c # cs)"

definition convert_structure :: "string \<Rightarrow> string" where
  "convert_structure structure = strip_slash (sub_strftime (sub_named structure))"

text \<open>\<open>os.path.join(a, b)\<close> of \<open>posixpath\<close>: an absolute second component replaces the
  first; otherwise the two are joined by one separator, unless the first is empty or
  already ends with one.\<close>

definition os_path_join :: "string \<Rightarrow> string \<Rightarrow> string" where
  "os_path_join a b =
     (if b \<noteq> [] \<and> hd b = CHR ''/'' then b
      else if a = [] \<or> last a = CHR ''/'' then a @ b
      else a @ ''/'' @ b)"

section \<open>Migration of deprecated settings\<close>

text \<open>
  \<open>Pelican._handle_deprecation\<close> mutates the settings dictionary in place and writes
  warnings to the logger. The model passes both along: the dictionary as it is when the
  method returns or raises, and the log records appended.
\<close>

definition setting_line :: "string \<Rightarrow> string \<Rightarrow> string" where
  "setting_line setting v = setting @ '' = '' @ [CHR 0x27] @ v @ [CHR 0x27]"

text \<open>Lines 63 to 74: the \<open>CLEAN_URLS\<close> branch.\<close>

definition clean_urls_step :: "settings \<Rightarrow> log_record list \<Rightarrow> settings \<times> log_record list" where
  "clean_urls_step s lg =
     (if get_flag s ''CLEAN_URLS'' then
        (let s' = s(''ARTICLE_URL'' \<mapsto> PyStr ''{slug}/'',
                    ''ARTICLE_LANG_URL'' \<mapsto> PyStr ''{slug}-{lang}/'',
                    ''PAGE_URL'' \<mapsto> PyStr ''pages/{slug}/'',
                    ''PAGE_LANG_URL'' \<mapsto> PyStr ''pages/{slug}-{lang}/'')
         in (s', lg @
              [(WARNING, ''Found deprecated `CLEAN_URLS` in settings. Modifing the following settings for the same behaviour.''),
               (WARNING, setting_line ''ARTICLE_URL'' ''{slug}/''),
               (WARNING, setting_line ''ARTICLE_LANG_URL'' ''{slug}-{lang}/''),
               (WARNING, setting_line ''PAGE_URL'' ''pages/{slug}/''),
               (WARNING, setting_line ''PAGE_LANG_URL'' ''pages/{slug}-{lang}/'')]))
      else (s, lg))"

text \<open>The keys of the loop of lines 92 to 95, in its order.\<close>

definition permalink_keys :: "string list" where
  "permalink_keys =
     [''ARTICLE_URL'', ''ARTICLE_LANG_URL'', ''PAGE_URL'', ''PAGE_LANG_URL'',
      ''ARTICLE_SAVE_AS'', ''ARTICLE_LANG_SAVE_AS'', ''PAGE_SAVE_AS'', ''PAGE_LANG_SAVE_AS'']"

text \<open>
  The loop of lines 92 to 98. \<open>self.settings[setting]\<close> raises \<open>KeyError\<close> on a missing
  key, and \<open>os.path.join\<close> raises \<open>AttributeError\<close> on a value that is not a string
  (it calls \<open>startswith\<close> on it); the keys already rewritten stay rewritten.
\<close>

fun prefix_settings ::
  "string \<Rightarrow> string list \<Rightarrow> settings \<Rightarrow> log_record list \<Rightarrow> exn option \<times> settings \<times> log_record list" where
  "prefix_settings structure [] s lg = (None, s, lg)"
| "prefix_settings structure (k # ks) s lg =
     (case s k of
        None \<Rightarrow> (Some (Exn KeyError k None), s, lg)
      | Some (PyStr v) \<Rightarrow>
          prefix_settings structure ks (s(k \<mapsto> PyStr (os_path_join structure v)))
            (lg @ [(WARNING, setting_line k (os_path_join structure v))])
      | Some _ \<Rightarrow> (Some (Exn AttributeError ''object has no attribute startswith'' None), s, lg))"

text \<open>Lines 76 to 98: the \<open>ARTICLE_PERMALINK_STRUCTURE\<close> branch. \<open>re.sub\<close> raises
  \<open>TypeError\<close> on a truthy value that is not a string.\<close>

definition permalink_step ::
  "settings \<Rightarrow> log_record list \<Rightarrow> exn option \<times> settings \<times> log_record list" where
  "permalink_step s lg =
     (if get_flag s ''ARTICLE_PERMALINK_STRUCTURE'' then
        (let lg1 = lg @ [(WARNING, ''Found deprecated `ARTICLE_PERMALINK_STRUCTURE` in settings.  Modifing the following settings for the same behaviour.'')]
         in (case s ''ARTICLE_PERMALINK_STRUCTURE'' of
               Some (PyStr structure) \<Rightarrow>
                 prefix_settings (convert_structure structure) permalink_keys s lg1
             | _ \<Rightarrow> (Some (Exn TypeError ''expected string or buffer'' None), s, lg1)))
      else (None, s, lg))"

definition handle_deprecation ::
  "settings \<Rightarrow> log_record list \<Rightarrow> exn option \<times> settings \<times> log_record list" where
  "handle_deprecation s lg = (case clean_urls_step s lg of (s1, lg1) \<Rightarrow> permalink_step s1 lg1)"

section \<open>The orchestrator and its collaborators\<close>

datatype gen_class = ArticlesGenerator | PagesGenerator | StaticGenerator | PdfGenerator

text \<open>A generator instance: its class and the two optional capabilities that \<open>run\<close>
  probes with \<open>hasattr\<close>.\<close>

record generator =
  gen_class :: gen_class
  has_generate_context :: bool
  has_generate_output :: bool

text \<open>The attributes of a \<open>Pelican\<close> object after \<open>__init__\<close>.\<close>

record pelican =
  path :: string
  settings :: settings
  theme :: string
  output_path :: string
  markup :: pyval
  delete_outputdir :: pyval

text \<open>The calls that leave the orchestrator, in the order they are made.\<close>

datatype event =
    RunCalled
  | Construct gen_class
  | GenerateContext gen_class
  | CleanOutputDir string
  | NewWriter string
  | GenerateOutput gen_class
  | FilesChanged string pyval
  | Sleep

text \<open>
  The generators, the writer, \<open>clean_output_dir\<close>, \<open>files_changed\<close>, \<open>_DEFAULT_CONFIG\<close>
  and the file system are not part of \<open>pelican/__init__.py\<close>. They are parameters: each
  effectful call maps the state of the outside world \<open>'w\<close> to a result, or an exception,
  and a new world.
\<close>

record 'w externals =
  realpath :: "'w \<Rightarrow> string \<Rightarrow> string"
  path_exists :: "'w \<Rightarrow> string \<Rightarrow> bool"
  module_dir :: string
  default_config :: settings
  new_generator :: "gen_class \<Rightarrow> pelican \<Rightarrow> 'w \<Rightarrow> (exn + bool \<times> bool) \<times> 'w"
  generate_context :: "generator \<Rightarrow> 'w \<Rightarrow> exn option \<times> 'w"
  generate_output :: "generator \<Rightarrow> 'w \<Rightarrow> exn option \<times> 'w"
  clean_output_dir :: "string \<Rightarrow> 'w \<Rightarrow> exn option \<times> 'w"
  new_writer :: "string \<Rightarrow> settings \<Rightarrow> 'w \<Rightarrow> exn option \<times> 'w"
  files_changed :: "string \<Rightarrow> pyval \<Rightarrow> 'w \<Rightarrow> (exn + bool) \<times> 'w"
  sleep :: "'w \<Rightarrow> exn option \<times> 'w"

record 'w st =
  world :: 'w
  trace :: "event list"
  logged :: "log_record list"

text \<open>An outside call: it is recorded in the trace and runs on the world.\<close>

definition call :: "event \<Rightarrow> ('w \<Rightarrow> 'r \<times> 'w) \<Rightarrow> 'w st \<Rightarrow> 'r \<times> 'w st" where
  "call ev f s = (case f (world s) of (r, w') \<Rightarrow> (r, s\<lparr>world := w', trace := trace s @ [ev]\<rparr>))"

text \<open>The events a computation added to the trace.\<close>

definition new_events :: "'w st \<Rightarrow> 'w st \<Rightarrow> event list" where
  "new_events s s' = drop (length (trace s)) (trace s')"

subsection \<open>Construction\<close>

text \<open>\<open>arg or settings[key]\<close> for an optional string argument.\<close>

definition str_or :: "string option \<Rightarrow> settings \<Rightarrow> string \<Rightarrow> exn + pyval" where
  "str_or arg s k =
     (case arg of
        None \<Rightarrow> getitem s k
      | Some a \<Rightarrow> if a \<noteq> [] then Inr (PyStr a) else getitem s k)"

definition list_or :: "string list option \<Rightarrow> settings \<Rightarrow> string \<Rightarrow> exn + pyval" where
  "list_or arg s k =
     (case arg of
        None \<Rightarrow> getitem s k
      | Some l \<Rightarrow> if l \<noteq> [] then Inr (PyList (map PyStr l)) else getitem s k)"

definition bool_or :: "bool \<Rightarrow> settings \<Rightarrow> string \<Rightarrow> exn + pyval" where
  "bool_or arg s k = (if arg then Inr (PyBool True) else getitem s k)"

text \<open>Lines 32 to 38: the content path, without one trailing separator. \<open>endswith\<close> on
  a truthy value that is not a string raises \<open>AttributeError\<close>.\<close>

definition content_path :: "string option \<Rightarrow> settings \<Rightarrow> exn + string" where
  "content_path arg s =
     (case str_or arg s ''PATH'' of
        Inl e \<Rightarrow> Inl e
      | Inr v \<Rightarrow>
          if \<not> truthy v then
            Inl (Exn Exception
              ''You need to specify a path containing the content (see pelican --help for more information)''
              None)
          else (case v of
                  PyStr p \<Rightarrow> Inr (if last p = CHR ''/'' then butlast p else p)
                | _ \<Rightarrow> Inl (Exn AttributeError ''object has no attribute endswith'' None)))"

text \<open>\<open>os.path.realpath\<close> of a value: only a string is a path.\<close>

definition py_realpath :: "'w externals \<Rightarrow> 'w \<Rightarrow> pyval \<Rightarrow> exn + string" where
  "py_realpath X w v =
     (case v of
        PyStr p \<Rightarrow> Inr (realpath X w p)
      | _ \<Rightarrow> Inl (Exn AttributeError ''object has no attribute startswith'' None))"

text \<open>The bundled theme of lines 54 and 55: the directory of the module, \<open>os.sep\<close>,
  \<open>themes/\<close> and the name.\<close>

definition bundled_theme :: "'w externals \<Rightarrow> string \<Rightarrow> string" where
  "bundled_theme X t = module_dir X @ ''/'' @ ''themes/'' @ t"

text \<open>Lines 52 to 59. The message of the exception formats the argument \<open>theme\<close>, not
  \<open>self.theme\<close>; \<open>os.path.exists\<close> raises \<open>TypeError\<close> on a value that is not a string.\<close>

definition find_theme :: "'w externals \<Rightarrow> 'w \<Rightarrow> pyval \<Rightarrow> string option \<Rightarrow> exn + string" where
  "find_theme X w v arg =
     (case v of
        PyStr t \<Rightarrow>
          if path_exists X w t then Inr t
          else if path_exists X w (bundled_theme X t) then Inr (bundled_theme X t)
          else Inl (Exn Exception
                 (''Impossible to find the theme '' @ (case arg of None \<Rightarrow> ''None'' | Some a \<Rightarrow> a))
                 None)
      | _ \<Rightarrow> Inl (Exn TypeError ''coercing to Unicode: need string or buffer'' None))"

text \<open>Lines 29 and 30: without settings the defaults are used.\<close>

definition effective_settings :: "'w externals \<Rightarrow> settings option \<Rightarrow> settings" where
  "effective_settings X settings_arg =
     (case settings_arg of None \<Rightarrow> default_config X | Some c \<Rightarrow> c)"

text \<open>\<open>Pelican.__init__\<close>. It makes no outside call that changes the world; the
  warnings of the migration go to the log.\<close>

definition init ::
  "'w externals \<Rightarrow> settings option \<Rightarrow> string option \<Rightarrow> string option \<Rightarrow> string option \<Rightarrow>
   string list option \<Rightarrow> bool \<Rightarrow> 'w st \<Rightarrow> (exn + pelican) \<times> 'w st" where
  "init X settings_arg path_arg theme_arg output_arg markup_arg delete_arg s =
     (let cfg = effective_settings X settings_arg in
      case content_path path_arg cfg of
        Inl e \<Rightarrow> (Inl e, s)
      | Inr pth \<Rightarrow>
      (case handle_deprecation cfg (logged s) of
        (Some e, cfg', lg) \<Rightarrow> (Inl e, s\<lparr>logged := lg\<rparr>)
      | (None, cfg', lg) \<Rightarrow>
      (case str_or theme_arg cfg' ''THEME'' of
        Inl e \<Rightarrow> (Inl e, s\<lparr>logged := lg\<rparr>)
      | Inr th \<Rightarrow>
      (case str_or output_arg cfg' ''OUTPUT_PATH'' of
        Inl e \<Rightarrow> (Inl e, s\<lparr>logged := lg\<rparr>)
      | Inr out \<Rightarrow>
      (case py_realpath X (world s) out of
        Inl e \<Rightarrow> (Inl e, s\<lparr>logged := lg\<rparr>)
      | Inr outp \<Rightarrow>
      (case list_or markup_arg cfg' ''MARKUP'' of
        Inl e \<Rightarrow> (Inl e, s\<lparr>logged := lg\<rparr>)
      | Inr mk \<Rightarrow>
      (case bool_or delete_arg cfg' ''DELETE_OUTPUT_DIRECTORY'' of
        Inl e \<Rightarrow> (Inl e, s\<lparr>logged := lg\<rparr>)
      | Inr del \<Rightarrow>
      (case find_theme X (world s) th theme_arg of
        Inl e \<Rightarrow> (Inl e, s\<lparr>logged := lg\<rparr>)
      | Inr t \<Rightarrow>
          (Inr \<lparr>path = pth, settings = cfg', theme = t, output_path = outp,
                markup = mk, delete_outputdir = del\<rparr>,
           s\<lparr>logged := lg\<rparr>)))))))))"

subsection \<open>One build\<close>

text \<open>\<open>Pelican.get_generator_classes\<close>.\<close>

definition get_generator_classes :: "settings \<Rightarrow> exn + gen_class list" where
  "get_generator_classes s =
     (case getitem s ''PDF_GENERATOR'' of
        Inl e \<Rightarrow> Inl e
      | Inr v \<Rightarrow>
          Inr ([ArticlesGenerator, PagesGenerator, StaticGenerator]
               @ (if truthy v then [PdfGenerator] else [])))"

text \<open>The list comprehension of lines 104 to 114: one instance per class, in order;
  a constructor that raises ends it.\<close>

fun construct_generators ::
  "'w externals \<Rightarrow> pelican \<Rightarrow> gen_class list \<Rightarrow> 'w st \<Rightarrow> (exn + generator list) \<times> 'w st" where
  "construct_generators X p [] s = (Inr [], s)"
| "construct_generators X p (c # cs) s =
     (case call (Construct c) (new_generator X c p) s of
        (Inl e, s1) \<Rightarrow> (Inl e, s1)
      | (Inr (hc, ho), s1) \<Rightarrow>
          (case construct_generators X p cs s1 of
             (Inl e, s2) \<Rightarrow> (Inl e, s2)
           | (Inr gs, s2) \<Rightarrow>
               (Inr (\<lparr>gen_class = c, has_generate_context = hc, has_generate_output = ho\<rparr> # gs),
                s2)))"

text \<open>The loop of lines 116 to 118.\<close>

fun context_phase :: "'w externals \<Rightarrow> generator list \<Rightarrow> 'w st \<Rightarrow> exn option \<times> 'w st" where
  "context_phase X [] s = (None, s)"
| "context_phase X (g # gs) s =
     (if has_generate_context g then
        (case call (GenerateContext (gen_class g)) (generate_context X g) s of
           (Some e, s1) \<Rightarrow> (Some e, s1)
         | (None, s1) \<Rightarrow> context_phase X gs s1)
      else context_phase X gs s)"

text \<open>Lines 120 to 124. \<open>startswith\<close> is the prefix order on strings.\<close>

definition cleanup_decision :: "'w externals \<Rightarrow> pelican \<Rightarrow> 'w st \<Rightarrow> exn option \<times> 'w st" where
  "cleanup_decision X p s =
     (if truthy (delete_outputdir p)
         \<and> \<not> prefix (output_path p) (realpath X (world s) (path p))
      then call (CleanOutputDir (output_path p)) (clean_output_dir X (output_path p)) s
      else (None, s))"

text \<open>The loop of lines 128 to 130.\<close>

fun output_phase :: "'w externals \<Rightarrow> generator list \<Rightarrow> 'w st \<Rightarrow> exn option \<times> 'w st" where
  "output_phase X [] s = (None, s)"
| "output_phase X (g # gs) s =
     (if has_generate_output g then
        (case call (GenerateOutput (gen_class g)) (generate_output X g) s of
           (Some e, s1) \<Rightarrow> (Some e, s1)
         | (None, s1) \<Rightarrow> output_phase X gs s1)
      else output_phase X gs s)"

text \<open>\<open>Pelican.run\<close>. The result is the exception that left it, if any. The context, a
  copy of the settings that the generators share and fill, lives in the outside world; the
  first event marks the entry into \<open>run\<close>.\<close>

definition run :: "'w externals \<Rightarrow> pelican \<Rightarrow> 'w st \<Rightarrow> exn option \<times> 'w st" where
  "run X p s0 =
     (let s = s0\<lparr>trace := trace s0 @ [RunCalled]\<rparr> in
      case get_generator_classes (settings p) of
        Inl e \<Rightarrow> (Some e, s)
      | Inr classes \<Rightarrow>
      (case construct_generators X p classes s of
        (Inl e, s1) \<Rightarrow> (Some e, s1)
      | (Inr generators, s1) \<Rightarrow>
      (case context_phase X generators s1 of
        (Some e, s2) \<Rightarrow> (Some e, s2)
      | (None, s2) \<Rightarrow>
      (case cleanup_decision X p s2 of
        (Some e, s3) \<Rightarrow> (Some e, s3)
      | (None, s3) \<Rightarrow>
      (case call (NewWriter (output_path p)) (new_writer X (output_path p) (settings p)) s3 of
        (Some e, s4) \<Rightarrow> (Some e, s4)
      | (None, s4) \<Rightarrow> output_phase X generators s4)))))"

subsection \<open>The entry point\<close>

text \<open>
  \<open>main\<close> is modelled from its \<open>try\<close> statement on. What comes before it (the parsed
  arguments, the parsed markup list, the settings read from the file) is its input, and
  the class it instantiates is \<open>Pelican\<close> itself.
\<close>

record args =
  arg_path :: "string option"
  arg_theme :: "string option"
  arg_output :: "string option"
  arg_delete_outputdir :: bool
  arg_verbosity :: "loglevel option"
  arg_autoreload :: bool

text \<open>The condition of line 219: \<open>or\<close> does not poll the theme tree once the content
  tree has reported a change.\<close>

definition poll :: "'w externals \<Rightarrow> pelican \<Rightarrow> 'w st \<Rightarrow> (exn + bool) \<times> 'w st" where
  "poll X p s =
     (case call (FilesChanged (path p) (markup p)) (files_changed X (path p) (markup p)) s of
        (Inl e, s1) \<Rightarrow> (Inl e, s1)
      | (Inr True, s1) \<Rightarrow> (Inr True, s1)
      | (Inr False, s1) \<Rightarrow>
          call (FilesChanged (theme p) (PyList [PyStr []]))
               (files_changed X (theme p) (PyList [PyStr []])) s1)"

text \<open>Lines 219 to 222, the body of the inner \<open>try\<close>.\<close>

definition tick_body :: "'w externals \<Rightarrow> pelican \<Rightarrow> 'w st \<Rightarrow> exn option \<times> 'w st" where
  "tick_body X p s =
     (case poll X p s of
        (Inl e, s1) \<Rightarrow> (Some e, s1)
      | (Inr changed, s1) \<Rightarrow>
          (case (if changed then run X p s1 else (None, s1)) of
             (Some e, s2) \<Rightarrow> (Some e, s2)
           | (None, s2) \<Rightarrow> call Sleep (sleep X) s2))"

datatype tick_result = Continue | Break | Raise exn

text \<open>One iteration of \<open>while True\<close>: \<open>KeyboardInterrupt\<close> leaves the loop, any other
  exception leaves it raised.\<close>

definition watch_tick :: "'w externals \<Rightarrow> pelican \<Rightarrow> 'w st \<Rightarrow> tick_result \<times> 'w st" where
  "watch_tick X p s =
     (case tick_body X p s of
        (None, s1) \<Rightarrow> (Continue, s1)
      | (Some e, s1) \<Rightarrow>
          if exn_class e = KeyboardInterrupt then (Break, s1) else (Raise e, s1))"

text \<open>The loop runs until something stops it. The first argument bounds the number of
  iterations; \<open>None\<close> says that the loop is still running after that many.\<close>

fun watch_loop :: "nat \<Rightarrow> 'w externals \<Rightarrow> pelican \<Rightarrow> 'w st \<Rightarrow> (exn option \<times> 'w st) option" where
  "watch_loop 0 X p s = None"
| "watch_loop (Suc n) X p s =
     (case watch_tick X p s of
        (Continue, s1) \<Rightarrow> watch_loop n X p s1
      | (Break, s1) \<Rightarrow> Some (None, s1)
      | (Raise e, s1) \<Rightarrow> Some (Some e, s1))"

text \<open>Lines 209 to 226, the body of the outer \<open>try\<close>.\<close>

definition try_block ::
  "nat \<Rightarrow> 'w externals \<Rightarrow> settings \<Rightarrow> args \<Rightarrow> string list option \<Rightarrow> 'w st \<Rightarrow>
   (exn option \<times> 'w st) option" where
  "try_block fuel X cfg a markup_arg s =
     (case init X (Some cfg) (arg_path a) (arg_theme a) (arg_output a) markup_arg
             (arg_delete_outputdir a) s of
        (Inl e, s1) \<Rightarrow> Some (Some e, s1)
      | (Inr p, s1) \<Rightarrow>
          if arg_autoreload a then watch_loop fuel X p s1 else Some (run X p s1))"

text \<open>How \<open>main\<close> ends: it returns, it leaves through \<open>sys.exit\<close> with a code, or an
  exception leaves it.\<close>

datatype outcome = Returned | Exited pyval | Uncaught exn

text \<open>
  \<open>unicode(e)\<close> of line 228. The messages are byte strings, as the literals of this
  module are, and Python 2 decodes a byte string with the ASCII codec: a byte above 127
  raises \<open>UnicodeDecodeError\<close>.
\<close>

definition is_ascii :: "char \<Rightarrow> bool" where
  "is_ascii c = ((of_char c :: nat) < 128)"

definition py_unicode :: "exn \<Rightarrow> exn + string" where
  "py_unicode e =
     (if list_all is_ascii (exn_msg e) then Inr (exn_msg e)
      else Inl (Exn UnicodeDecodeError
             ''ascii codec cannot decode byte: ordinal not in range(128)'' None))"

text \<open>Lines 227 to 233: \<open>except Exception, e\<close>. The argument of \<open>logger.critical\<close> is
  evaluated first; when that raises, nothing is logged and the new exception leaves
  \<open>main\<close> from inside the handler.\<close>

definition handler :: "args \<Rightarrow> exn \<Rightarrow> 'w st \<Rightarrow> outcome \<times> 'w st" where
  "handler a e s =
     (if is_Exception (exn_class e) then
        (case py_unicode e of
           Inl u \<Rightarrow> (Uncaught u, s)
         | Inr msg \<Rightarrow>
             (let s1 = s\<lparr>logged := logged s @ [(CRITICAL, msg)]\<rparr> in
              if arg_verbosity a = Some DEBUG then (Uncaught e, s1)
              else (Exited (case exitcode e of None \<Rightarrow> PyInt 1 | Some c \<Rightarrow> c), s1)))
      else (Uncaught e, s))"

definition main ::
  "nat \<Rightarrow> 'w externals \<Rightarrow> settings \<Rightarrow> args \<Rightarrow> string list option \<Rightarrow> 'w st \<Rightarrow>
   (outcome \<times> 'w st) option" where
  "main fuel X cfg a markup_arg s =
     (case try_block fuel X cfg a markup_arg s of
        None \<Rightarrow> None
      | Some (None, s1) \<Rightarrow> Some (Returned, s1)
      | Some (Some e, s1) \<Rightarrow> Some (handler a e s1))"

section \<open>Vocabulary of the properties\<close>







definition url_keys :: "string list" where
  "url_keys = [''ARTICLE_URL'', ''ARTICLE_LANG_URL'', ''PAGE_URL'', ''PAGE_LANG_URL'']"

definition save_as_keys :: "string list" where
  "save_as_keys =
     [''ARTICLE_SAVE_AS'', ''ARTICLE_LANG_SAVE_AS'', ''PAGE_SAVE_AS'', ''PAGE_LANG_SAVE_AS'']"

text \<open>Events of the context phase, and events that come after it in a build.\<close>

fun is_context :: "event \<Rightarrow> bool" where
  "is_context (GenerateContext c) = True"
| "is_context _ = False"

fun is_later :: "event \<Rightarrow> bool" where
  "is_later (CleanOutputDir d) = True"
| "is_later (NewWriter d) = True"
| "is_later (GenerateOutput c) = True"
| "is_later _ = False"

fun is_output :: "event \<Rightarrow> bool" where
  "is_output (GenerateOutput c) = True"
| "is_output _ = False"

text \<open>No context event after the first later event.\<close>

fun contexts_first :: "event list \<Rightarrow> bool" where
  "contexts_first [] = True"
| "contexts_first (e # es) =
     (if is_later e then list_all (\<lambda>x. \<not> is_context x) es else contexts_first es)"

text \<open>The context calls of a pipeline, in pipeline order.\<close>

definition context_calls :: "generator list \<Rightarrow> event list" where
  "context_calls gs = map (\<lambda>g. GenerateContext (gen_class g)) (filter has_generate_context gs)"

definition output_calls :: "generator list \<Rightarrow> event list" where
  "output_calls gs = map (\<lambda>g. GenerateOutput (gen_class g)) (filter has_generate_output gs)"


text \<open>The cleanup decision and everything after it, from the state the context phase left.\<close>

definition finish :: "'w externals \<Rightarrow> pelican \<Rightarrow> generator list \<Rightarrow> 'w st \<Rightarrow> exn option \<times> 'w st" where
  "finish X p gens s2 =
     (case cleanup_decision X p s2 of
        (Some e, s3) \<Rightarrow> (Some e, s3)
      | (None, s3) \<Rightarrow>
      (case call (NewWriter (output_path p)) (new_writer X (output_path p) (settings p)) s3 of
        (Some e, s4) \<Rightarrow> (Some e, s4)
      | (None, s4) \<Rightarrow> output_phase X gens s4))"



text \<open>The guard of line 122 and 123 in a given state.\<close>

definition erases :: "'w externals \<Rightarrow> pelican \<Rightarrow> 'w st \<Rightarrow> bool" where
  "erases X p s = (truthy (delete_outputdir p)
         \<and> \<not> prefix (output_path p) (realpath X (world s) (path p)))"



text \<open>An event of one build: neither the entry into \<open>run\<close> nor a call of the watch loop.\<close>

fun is_build :: "event \<Rightarrow> bool" where
  "is_build RunCalled = False"
| "is_build (FilesChanged d x) = False"
| "is_build Sleep = False"
| "is_build _ = True"

section \<open>Example sites\<close>

text \<open>
  The examples run on a small world: the list of the paths that exist, no symbolic links,
  generators and a writer that raise nothing and touch nothing.
\<close>

type_synonym fs = "string list"

text \<open>
  Modelled from the spec: \<open>pelican.utils.clean_output_dir\<close> is not in
  \<open>pelican/__init__.py\<close>; the specification says that it erases the output directory
  recursively. Here the directory and every path below it stop existing.
\<close>

definition rmtree :: "string \<Rightarrow> fs \<Rightarrow> fs" where
  "rmtree d w = filter (\<lambda>q. \<not> (q = d \<or> prefix (d @ ''/'') q)) w"

definition example_config :: settings where
  "example_config =
     [''PATH'' \<mapsto> PyStr [], ''THEME'' \<mapsto> PyStr ''notmyidea'',
      ''OUTPUT_PATH'' \<mapsto> PyStr ''output/'', ''MARKUP'' \<mapsto> PyList [PyStr ''rst'', PyStr ''md''],
      ''DELETE_OUTPUT_DIRECTORY'' \<mapsto> PyBool False, ''PDF_GENERATOR'' \<mapsto> PyBool False,
      ''ARTICLE_URL'' \<mapsto> PyStr ''{slug}.html'',
      ''ARTICLE_LANG_URL'' \<mapsto> PyStr ''{slug}-{lang}.html'',
      ''PAGE_URL'' \<mapsto> PyStr ''pages/{slug}.html'',
      ''PAGE_LANG_URL'' \<mapsto> PyStr ''pages/{slug}-{lang}.html'',
      ''ARTICLE_SAVE_AS'' \<mapsto> PyStr ''{slug}.html'',
      ''ARTICLE_LANG_SAVE_AS'' \<mapsto> PyStr ''{slug}-{lang}.html'',
      ''PAGE_SAVE_AS'' \<mapsto> PyStr ''pages/{slug}.html'',
      ''PAGE_LANG_SAVE_AS'' \<mapsto> PyStr ''pages/{slug}-{lang}.html'']"

definition stub :: "fs externals" where
  "stub = \<lparr>realpath = (\<lambda>w q. q), path_exists = (\<lambda>w q. q \<in> set w),
            module_dir = ''/usr/lib/pelican'', default_config = example_config,
            new_generator = (\<lambda>c p w. (Inr (True, True), w)),
            generate_context = (\<lambda>g w. (None, w)),
            generate_output = (\<lambda>g w. (None, w)),
            clean_output_dir = (\<lambda>d w. (None, rmtree d w)),
            new_writer = (\<lambda>d cfg w. (None, w)),
            files_changed = (\<lambda>d x w. (Inr False, w)),
            sleep = (\<lambda>w. (None, w))\<rparr>"

definition start :: "'w \<Rightarrow> 'w st" where
  "start w = \<lparr>world = w, trace = [], logged = []\<rparr>"

text \<open>The scenario of the specification: content \<open>/a/b\<close>, output \<open>/a/b/output\<close>,
  deletion asked for.\<close>

definition scenario_fs :: fs where
  "scenario_fs = [''/a/b'', ''/a/b/post.rst'', ''/a/b/output'', ''/a/b/output/index.html'', ''/themes/simple'']"

definition scenario :: pelican where
  "scenario = \<lparr>path = ''/a/b'', settings = example_config, theme = ''/themes/simple'',
                 output_path = ''/a/b/output'', markup = PyList [PyStr ''rst'', PyStr ''md''],
                 delete_outputdir = PyBool True\<rparr>"

definition permalink_config :: settings where
  "permalink_config = example_config(''ARTICLE_PERMALINK_STRUCTURE'' \<mapsto> PyStr ''/%Y/%(category)s'')"


text \<open>A page generator that raises while it builds its context.\<close>

definition failing :: "fs externals" where
  "failing = stub\<lparr>generate_context :=
      (\<lambda>g w. if gen_class g = PagesGenerator
              then (Some (Exn (OtherException ''ParseError'') ''bad page'' None), w)
              else (None, w))\<rparr>"



definition three_generators :: "generator list" where
  "three_generators =
     [\<lparr>gen_class = ArticlesGenerator, has_generate_context = True, has_generate_output = True\<rparr>,
      \<lparr>gen_class = PagesGenerator, has_generate_context = True, has_generate_output = True\<rparr>,
      \<lparr>gen_class = StaticGenerator, has_generate_context = True, has_generate_output = True\<rparr>]"

definition no_args :: args where
  "no_args = \<lparr>arg_path = None, arg_theme = None, arg_output = None, arg_delete_outputdir = False,
               arg_verbosity = None, arg_autoreload = False\<rparr>"

definition built_state :: "fs st" where
  "built_state = \<lparr>world = scenario_fs,
      trace = [RunCalled, Construct ArticlesGenerator, Construct PagesGenerator,
               Construct StaticGenerator],
      logged = []\<rparr>"

definition context_state :: "fs st" where
  "context_state = \<lparr>world = scenario_fs,
      trace = [RunCalled, Construct ArticlesGenerator, Construct PagesGenerator,
               Construct StaticGenerator, GenerateContext ArticlesGenerator,
               GenerateContext PagesGenerator, GenerateContext StaticGenerator],
      logged = []\<rparr>"

definition failed_state :: "fs st" where
  "failed_state = \<lparr>world = scenario_fs,
      trace = [RunCalled, Construct ArticlesGenerator, Construct PagesGenerator,
               Construct StaticGenerator, GenerateContext ArticlesGenerator,
               GenerateContext PagesGenerator],
      logged = []\<rparr>"

text \<open>A writer whose construction raises an exception that carries an exit code.\<close>

definition exiting :: "fs externals" where
  "exiting = stub\<lparr>new_writer :=
      (\<lambda>d cfg w. (Some (Exn (OtherException ''WriterError'') ''disk full'' (Some (PyInt 3))), w))\<rparr>"

definition site_args :: args where
  "site_args = no_args\<lparr>arg_path := Some ''/a/b'', arg_theme := Some ''/themes/simple''\<rparr>"

definition writer_failed_state :: "fs st" where
  "writer_failed_state = \<lparr>world = scenario_fs,
      trace = [RunCalled, Construct ArticlesGenerator, Construct PagesGenerator,
               Construct StaticGenerator, GenerateContext ArticlesGenerator,
               GenerateContext PagesGenerator, GenerateContext StaticGenerator,
               NewWriter ''output/''],
      logged = []\<rparr>"

text \<open>A theme name with the two bytes of a UTF-8 accented letter, as the command line
  delivers it, and the arguments that ask for it.\<close>

definition accent_theme :: string where
  "accent_theme = ''th'' @ [CHR 0xC3, CHR 0xA8] @ ''me''"

definition accent_args :: args where
  "accent_args = no_args\<lparr>arg_path := Some ''/a/b'', arg_theme := Some accent_theme\<rparr>"

definition clean_config :: settings where
  "clean_config = permalink_config(''CLEAN_URLS'' \<mapsto> PyBool True)"

definition bundled_fs :: fs where
  "bundled_fs = ''/usr/lib/pelican/themes/simple'' # scenario_fs"


section \<open>The permalink structure is rewritten token by token\<close>


lemma not_word_paren [simp]: "\<not> is_word_char (CHR '')'')"
  by (simp add: is_word_char_def)












lemma prefix_settings_other:
  "k \<notin> set ks \<Longrightarrow> fst (snd (prefix_settings st ks s lg)) k = s k"
proof (induction ks arbitrary: s lg)
  case Nil then show ?case by simp
next
  case (Cons a ks)
  then show ?case by (auto split: option.splits pyval.splits)
qed

lemma prefix_settings_ok:
  "distinct ks \<Longrightarrow> \<forall>k\<in>set ks. \<exists>v. s k = Some (PyStr v) \<Longrightarrow>
   fst (prefix_settings st ks s lg) = None \<and>
   (\<forall>k v. k \<in> set ks \<longrightarrow> s k = Some (PyStr v) \<longrightarrow>
       fst (snd (prefix_settings st ks s lg)) k = Some (PyStr (os_path_join st v)))"
proof (induction ks arbitrary: s lg)
  case Nil then show ?case by simp
next
  case (Cons a ks)
  from Cons.prems obtain va where va: "s a = Some (PyStr va)" by auto
  let ?s = "s(a \<mapsto> PyStr (os_path_join st va))"
  let ?lg = "lg @ [(WARNING, setting_line a (os_path_join st va))]"
  have step: "prefix_settings st (a # ks) s lg = prefix_settings st ks ?s ?lg"
    using va by simp
  have d: "distinct ks" and na: "a \<notin> set ks" using Cons.prems by auto
  have pres: "\<forall>k\<in>set ks. \<exists>v. ?s k = Some (PyStr v)" using Cons.prems na by auto
  from Cons.IH [OF d pres, of ?lg] have
    ih1: "fst (prefix_settings st ks ?s ?lg) = None" and
    ih2: "\<And>k v. k \<in> set ks \<Longrightarrow> ?s k = Some (PyStr v) \<Longrightarrow>
       fst (snd (prefix_settings st ks ?s ?lg)) k = Some (PyStr (os_path_join st v))"
    by blast+
  have a: "fst (snd (prefix_settings st ks ?s ?lg)) a = ?s a"
    using na by (rule prefix_settings_other)
  have "fst (snd (prefix_settings st ks ?s ?lg)) k = Some (PyStr (os_path_join st v))"
    if k: "k \<in> set (a # ks)" and v: "s k = Some (PyStr v)" for k v
  proof (cases "k = a")
    case True
    with a va v show ?thesis by simp
  next
    case False
    with k have "k \<in> set ks" by simp
    moreover from False v have "?s k = Some (PyStr v)" by simp
    ultimately show ?thesis by (rule ih2)
  qed
  with ih1 show ?case unfolding step by blast
qed


section \<open>The trace of one build\<close>

lemma call_trace: "call ev f s = (r, s') \<Longrightarrow> trace s' = trace s @ [ev]"
  by (auto simp: call_def split: prod.splits)

lemma construct_trace:
  "construct_generators X p cs s = (r, s') \<Longrightarrow> \<exists>ds. trace s' = trace s @ map Construct ds"
proof (induction cs arbitrary: s r s')
  case Nil
  then have "trace s' = trace s @ map Construct []" by simp
  then show ?case by blast
next
  case (Cons c cs)
  obtain r1 s1 where c1: "call (Construct c) (new_generator X c p) s = (r1, s1)"
    by (cases "call (Construct c) (new_generator X c p) s")
  then have t1: "trace s1 = trace s @ [Construct c]" by (rule call_trace)
  show ?case
  proof (cases r1)
    case (Inl e)
    with Cons.prems c1 have "s' = s1" by simp
    with t1 have "trace s' = trace s @ map Construct [c]" by simp
    then show ?thesis by blast
  next
    case (Inr caps)
    obtain r2 s2 where c2: "construct_generators X p cs s1 = (r2, s2)"
      by (cases "construct_generators X p cs s1")
    from Cons.IH [OF c2] obtain ds where ds: "trace s2 = trace s1 @ map Construct ds" by blast
    from Cons.prems c1 Inr c2 have "s' = s2"
      by (cases caps; cases r2) auto
    with ds t1 have "trace s' = trace s @ map Construct (c # ds)" by simp
    then show ?thesis by blast
  qed
qed

lemma construct_ok:
  "construct_generators X p cs s = (Inr gens, s') \<Longrightarrow>
   trace s' = trace s @ map Construct cs \<and> map gen_class gens = cs"
proof (induction cs arbitrary: s gens s')
  case Nil
  then show ?case by simp
next
  case (Cons c cs)
  obtain r1 s1 where c1: "call (Construct c) (new_generator X c p) s = (r1, s1)"
    by (cases "call (Construct c) (new_generator X c p) s")
  then have t1: "trace s1 = trace s @ [Construct c]" by (rule call_trace)
  obtain r2 s2 where c2: "construct_generators X p cs s1 = (r2, s2)"
    by (cases "construct_generators X p cs s1")
  from Cons.prems c1 c2 obtain hc ho gs where
    r1: "r1 = Inr (hc, ho)" and r2: "r2 = Inr gs" and
    g: "gens = \<lparr>gen_class = c, has_generate_context = hc, has_generate_output = ho\<rparr> # gs"
    and s': "s' = s2"
    by (cases r1; cases r2) (auto split: prod.splits)
  from Cons.IH [OF c2 [unfolded r2]] have "trace s2 = trace s1 @ map Construct cs"
    and "map gen_class gs = cs" by blast+
  with t1 g s' show ?case by simp
qed

lemma context_trace:
  "context_phase X gs s = (r, s') \<Longrightarrow>
   \<exists>cs. trace s' = trace s @ map GenerateContext cs \<and>
        (r = None \<longrightarrow> map GenerateContext cs = context_calls gs)"
proof (induction gs arbitrary: s r s')
  case Nil
  then have "trace s' = trace s @ map GenerateContext [] \<and>
        (r = None \<longrightarrow> map GenerateContext [] = context_calls [])"
    by (simp add: context_calls_def)
  then show ?case by blast
next
  case (Cons g gs)
  show ?case
  proof (cases "has_generate_context g")
    case False
    with Cons.prems have "context_phase X gs s = (r, s')" by simp
    from Cons.IH [OF this] False show ?thesis by (simp add: context_calls_def)
  next
    case True
    obtain r1 s1 where c1:
      "call (GenerateContext (gen_class g)) (generate_context X g) s = (r1, s1)"
      by (cases "call (GenerateContext (gen_class g)) (generate_context X g) s")
    then have t1: "trace s1 = trace s @ [GenerateContext (gen_class g)]" by (rule call_trace)
    show ?thesis
    proof (cases r1)
      case (Some e)
      with Cons.prems True c1 have "s' = s1" "r \<noteq> None" by auto
      with t1 have "trace s' = trace s @ map GenerateContext [gen_class g] \<and>
        (r = None \<longrightarrow> map GenerateContext [gen_class g] = context_calls (g # gs))" by auto
      then show ?thesis by blast
    next
      case None
      with Cons.prems True c1 have "context_phase X gs s1 = (r, s')" by simp
      from Cons.IH [OF this] obtain cs where
        cs: "trace s' = trace s1 @ map GenerateContext cs"
            "r = None \<longrightarrow> map GenerateContext cs = context_calls gs" by blast
      with t1 True have "trace s' = trace s @ map GenerateContext (gen_class g # cs) \<and>
        (r = None \<longrightarrow> map GenerateContext (gen_class g # cs) = context_calls (g # gs))"
        by (simp add: context_calls_def)
      then show ?thesis by blast
    qed
  qed
qed

lemma output_trace:
  "output_phase X gs s = (r, s') \<Longrightarrow>
   \<exists>cs. trace s' = trace s @ map GenerateOutput cs \<and>
        (r = None \<longrightarrow> map GenerateOutput cs = output_calls gs)"
proof (induction gs arbitrary: s r s')
  case Nil
  then have "trace s' = trace s @ map GenerateOutput [] \<and>
        (r = None \<longrightarrow> map GenerateOutput [] = output_calls [])"
    by (simp add: output_calls_def)
  then show ?case by blast
next
  case (Cons g gs)
  show ?case
  proof (cases "has_generate_output g")
    case False
    with Cons.prems have "output_phase X gs s = (r, s')" by simp
    from Cons.IH [OF this] False show ?thesis by (simp add: output_calls_def)
  next
    case True
    obtain r1 s1 where c1:
      "call (GenerateOutput (gen_class g)) (generate_output X g) s = (r1, s1)"
      by (cases "call (GenerateOutput (gen_class g)) (generate_output X g) s")
    then have t1: "trace s1 = trace s @ [GenerateOutput (gen_class g)]" by (rule call_trace)
    show ?thesis
    proof (cases r1)
      case (Some e)
      with Cons.prems True c1 have "s' = s1" "r \<noteq> None" by auto
      with t1 have "trace s' = trace s @ map GenerateOutput [gen_class g] \<and>
        (r = None \<longrightarrow> map GenerateOutput [gen_class g] = output_calls (g # gs))" by auto
      then show ?thesis by blast
    next
      case None
      with Cons.prems True c1 have "output_phase X gs s1 = (r, s')" by simp
      from Cons.IH [OF this] obtain cs where
        cs: "trace s' = trace s1 @ map GenerateOutput cs"
            "r = None \<longrightarrow> map GenerateOutput cs = output_calls gs" by blast
      with t1 True have "trace s' = trace s @ map GenerateOutput (gen_class g # cs) \<and>
        (r = None \<longrightarrow> map GenerateOutput (gen_class g # cs) = output_calls (g # gs))"
        by (simp add: output_calls_def)
      then show ?thesis by blast
    qed
  qed
qed

lemma cleanup_trace:
  "cleanup_decision X p s = (r, s') \<Longrightarrow>
   trace s' = trace s @ (if erases X p s then [CleanOutputDir (output_path p)] else [])"
  by (auto simp: cleanup_decision_def erases_def dest: call_trace split: if_splits)

lemma cleanup_skip: "\<not> erases X p s \<Longrightarrow> cleanup_decision X p s = (None, s)"
  by (auto simp: cleanup_decision_def erases_def)

lemma finish_trace:
  "finish X p gens s2 = (r, s') \<Longrightarrow>
   \<exists>os. trace s' = trace s2 @ (if erases X p s2 then [CleanOutputDir (output_path p)] else []) @ os
      \<and> (os = [] \<or> (\<exists>ks. os = NewWriter (output_path p) # map GenerateOutput ks))
      \<and> (\<not> erases X p s2 \<longrightarrow> os \<noteq> [])"
proof -
  assume f: "finish X p gens s2 = (r, s')"
  let ?cl = "if erases X p s2 then [CleanOutputDir (output_path p)] else []"
  obtain r3 s3 where c3: "cleanup_decision X p s2 = (r3, s3)"
    by (cases "cleanup_decision X p s2")
  then have t3: "trace s3 = trace s2 @ ?cl" by (rule cleanup_trace)
  show ?thesis
  proof (cases r3)
    case (Some e)
    with f c3 have "s' = s3" by (simp add: finish_def)
    moreover from Some c3 have "erases X p s2" using cleanup_skip [of X p s2] by auto
    ultimately have "trace s' = trace s2 @ ?cl @ [] \<and> ([] = [] \<or> (\<exists>ks. [] = NewWriter (output_path p) # map GenerateOutput ks))
       \<and> (\<not> erases X p s2 \<longrightarrow> [] \<noteq> ([]::event list))" using t3 by simp
    then show ?thesis by blast
  next
    case None
    obtain r4 s4 where c4:
      "call (NewWriter (output_path p)) (new_writer X (output_path p) (settings p)) s3 = (r4, s4)"
      by (cases "call (NewWriter (output_path p)) (new_writer X (output_path p) (settings p)) s3")
    then have t4: "trace s4 = trace s3 @ [NewWriter (output_path p)]" by (rule call_trace)
    show ?thesis
    proof (cases r4)
      case (Some e)
      with f c3 None c4 have "s' = s4" by (simp add: finish_def)
      with t3 t4 have "trace s' = trace s2 @ ?cl @ [NewWriter (output_path p)]" by simp
      moreover have "[NewWriter (output_path p)] = NewWriter (output_path p) # map GenerateOutput []"
        by simp
      ultimately show ?thesis by blast
    next
      case None': None
      with f c3 None c4 have "output_phase X gens s4 = (r, s')" by (simp add: finish_def)
      from output_trace [OF this] obtain ks where "trace s' = trace s4 @ map GenerateOutput ks"
        by blast
      with t3 t4 have "trace s' = trace s2 @ ?cl @ (NewWriter (output_path p) # map GenerateOutput ks)"
        by simp
      then show ?thesis by blast
    qed
  qed
qed

lemma run_reached:
  "get_generator_classes (settings p) = Inr cs \<Longrightarrow>
   construct_generators X p cs (s\<lparr>trace := trace s @ [RunCalled]\<rparr>) = (Inr gens, s1) \<Longrightarrow>
   context_phase X gens s1 = (None, s2) \<Longrightarrow>
   run X p s = finish X p gens s2"
  by (simp add: run_def finish_def)

lemma new_events_append: "trace s' = trace s @ evs \<Longrightarrow> new_events s s' = evs"
  by (simp add: new_events_def)

lemma run_trace_all:
  "\<exists>ds cs rest. trace (snd (run X p s)) = trace s @ RunCalled # map Construct ds @ map GenerateContext cs @ rest
     \<and> (rest = [] \<or> (\<exists>s2 os. rest = (if erases X p s2 then [CleanOutputDir (output_path p)] else []) @ os
            \<and> (os = [] \<or> (\<exists>ks. os = NewWriter (output_path p) # map GenerateOutput ks))))"
  (is "\<exists>ds cs rest. ?P ds cs rest")
proof (cases "get_generator_classes (settings p)")
  case (Inl e)
  then have "?P [] [] []" by (simp add: run_def)
  then show ?thesis by blast
next
  case (Inr classes)
  let ?s = "s\<lparr>trace := trace s @ [RunCalled]\<rparr>"
  obtain r1 s1 where c1: "construct_generators X p classes ?s = (r1, s1)"
    by (cases "construct_generators X p classes ?s")
  from construct_trace [OF c1] obtain ds where ds: "trace s1 = trace s @ RunCalled # map Construct ds"
    by auto
  show ?thesis
  proof (cases r1)
    case (Inl e)
    with Inr c1 ds have "?P ds [] []" by (simp add: run_def)
    then show ?thesis by blast
  next
    case gens: (Inr gens)
    obtain r2 s2 where c2: "context_phase X gens s1 = (r2, s2)"
      by (cases "context_phase X gens s1")
    from context_trace [OF c2] obtain cs where cs: "trace s2 = trace s1 @ map GenerateContext cs"
      by blast
    show ?thesis
    proof (cases r2)
      case (Some e)
      with Inr c1 gens c2 have "snd (run X p s) = s2" by (simp add: run_def)
      with ds cs have "?P ds cs []" by simp
      then show ?thesis by blast
    next
      case None
      with Inr c1 gens c2 have r: "run X p s = finish X p gens s2"
        by (simp add: run_reached)
      obtain r3 s3 where c3: "finish X p gens s2 = (r3, s3)" by (cases "finish X p gens s2")
      from finish_trace [OF c3] obtain os where
        os: "trace s3 = trace s2 @ (if erases X p s2 then [CleanOutputDir (output_path p)] else []) @ os"
            "os = [] \<or> (\<exists>ks. os = NewWriter (output_path p) # map GenerateOutput ks)" by blast
      let ?rest = "(if erases X p s2 then [CleanOutputDir (output_path p)] else []) @ os"
      from r c3 os ds cs have "trace (snd (run X p s)) = trace s @ RunCalled # map Construct ds @ map GenerateContext cs @ ?rest"
        by simp
      with os(2) have "?P ds cs ?rest" by blast
      then show ?thesis by blast
    qed
  qed
qed

lemma contexts_first_early:
  "list_all (\<lambda>e. \<not> is_later e) xs \<Longrightarrow> contexts_first (xs @ ys) = contexts_first ys"
  by (induction xs) simp_all

lemma contexts_first_none: "list_all (\<lambda>e. \<not> is_context e) ys \<Longrightarrow> contexts_first ys"
  by (induction ys) simp_all

lemma run_shape:
  "\<exists>early rest. trace (snd (run X p s)) = trace s @ RunCalled # early @ rest
      \<and> list_all (\<lambda>e. is_build e \<and> \<not> is_later e) early
      \<and> list_all (\<lambda>e. is_build e \<and> \<not> is_context e) rest"
proof -
  from run_trace_all [of X p s] obtain ds cs rest where
    t: "trace (snd (run X p s)) = trace s @ RunCalled # map Construct ds @ map GenerateContext cs @ rest"
    and r: "rest = [] \<or> (\<exists>s2 os. rest = (if erases X p s2 then [CleanOutputDir (output_path p)] else []) @ os
            \<and> (os = [] \<or> (\<exists>ks. os = NewWriter (output_path p) # map GenerateOutput ks)))"
    by blast
  have e: "list_all (\<lambda>e. is_build e \<and> \<not> is_later e) (map Construct ds @ map GenerateContext cs)"
    by (auto simp: list_all_iff)
  from r have l: "list_all (\<lambda>e. is_build e \<and> \<not> is_context e) rest"
    by (auto simp: list_all_iff)
  from t have "trace (snd (run X p s)) = trace s @ RunCalled # (map Construct ds @ map GenerateContext cs) @ rest"
    by simp
  with e l show ?thesis by blast
qed

lemma run_contexts_first: "contexts_first (new_events s (snd (run X p s)))"
proof -
  from run_shape [of X p s] obtain early rest where
    n: "trace (snd (run X p s)) = trace s @ RunCalled # early @ rest"
    and e: "list_all (\<lambda>e. is_build e \<and> \<not> is_later e) early"
    and l: "list_all (\<lambda>e. is_build e \<and> \<not> is_context e) rest" by blast
  from e have e': "list_all (\<lambda>e. \<not> is_later e) early" by (simp add: list_all_iff)
  from l have "list_all (\<lambda>e. \<not> is_context e) rest" by (simp add: list_all_iff)
  then have "contexts_first rest" by (rule contexts_first_none)
  with e' n show ?thesis by (simp add: contexts_first_early new_events_def)
qed




lemma reached_trace:
  assumes classes: "get_generator_classes (settings p) = Inr cs"
    and built: "construct_generators X p cs (s\<lparr>trace := trace s @ [RunCalled]\<rparr>) = (Inr gens, s1)"
    and ctx: "context_phase X gens s1 = (None, s2)"
  shows "trace s2 = trace s @ RunCalled # map Construct cs @ context_calls gens"
proof -
  from construct_ok [OF built] have "trace s1 = trace s @ RunCalled # map Construct cs" by simp
  moreover from context_trace [OF ctx] have "trace s2 = trace s1 @ context_calls gens" by auto
  ultimately show ?thesis by simp
qed





text \<open>
  C4. In every run no context call comes after a cleanup, a writer construction or an
  output call. When the context phase returns, the events of the run so far are the
  constructions and then the context calls of all members, in pipeline order, and only then
  does the rest of \<open>run\<close> (cleanup decision, writer, output phase) start. When a generator
  raises in the context phase, \<open>run\<close> ends with that exception and has made no cleanup,
  writer or output call.
\<close>

theorem phase_order:
  "contexts_first (new_events s (snd (run X p s)))
   \<and> (get_generator_classes (settings p) = Inr cs \<longrightarrow>
      construct_generators X p cs (s\<lparr>trace := trace s @ [RunCalled]\<rparr>) = (Inr gens, s1) \<longrightarrow>
        (context_phase X gens s1 = (None, s2) \<longrightarrow>
           map gen_class gens = cs
           \<and> new_events s s2 = RunCalled # map Construct cs @ context_calls gens
           \<and> run X p s = finish X p gens s2)
      \<and> (context_phase X gens s1 = (Some e, s2) \<longrightarrow>
           run X p s = (Some e, s2)
           \<and> list_all (\<lambda>x. \<not> is_later x) (new_events s s2)))"
proof -
  have a: "contexts_first (new_events s (snd (run X p s)))" by (rule run_contexts_first)
  have b: "map gen_class gens = cs
           \<and> new_events s s2 = RunCalled # map Construct cs @ context_calls gens
           \<and> run X p s = finish X p gens s2"
    if classes: "get_generator_classes (settings p) = Inr cs"
      and built: "construct_generators X p cs (s\<lparr>trace := trace s @ [RunCalled]\<rparr>) = (Inr gens, s1)"
      and ctx: "context_phase X gens s1 = (None, s2)"
  proof -
    from construct_ok [OF built] have "map gen_class gens = cs" by simp
    moreover from reached_trace [OF classes built ctx]
    have "new_events s s2 = RunCalled # map Construct cs @ context_calls gens"
      by (simp add: new_events_def)
    moreover have "run X p s = finish X p gens s2" using classes built ctx by (rule run_reached)
    ultimately show ?thesis by blast
  qed
  have c: "run X p s = (Some e, s2) \<and> list_all (\<lambda>x. \<not> is_later x) (new_events s s2)"
    if classes: "get_generator_classes (settings p) = Inr cs"
      and built: "construct_generators X p cs (s\<lparr>trace := trace s @ [RunCalled]\<rparr>) = (Inr gens, s1)"
      and ctx: "context_phase X gens s1 = (Some e, s2)"
  proof -
    from classes built ctx have "run X p s = (Some e, s2)" by (simp add: run_def)
    moreover from construct_ok [OF built] have "trace s1 = trace s @ RunCalled # map Construct cs"
      by simp
    moreover from context_trace [OF ctx] obtain ks where
      "trace s2 = trace s1 @ map GenerateContext ks" by blast
    ultimately show ?thesis by (auto simp: new_events_def list_all_iff)
  qed
  from a b c show ?thesis by blast
qed

text \<open>
  C6. With the PDF setting falsy the classes of the pipeline are exactly the article, page
  and static generators in this order; with the setting truthy the PDF generator follows
  them as the fourth and last.
\<close>

theorem pipeline_assembly:
  assumes "s ''PDF_GENERATOR'' = Some v"
  shows "(\<not> truthy v \<longrightarrow>
            get_generator_classes s = Inr [ArticlesGenerator, PagesGenerator, StaticGenerator])
       \<and> (truthy v \<longrightarrow>
            get_generator_classes s =
              Inr [ArticlesGenerator, PagesGenerator, StaticGenerator, PdfGenerator])"
  using assms by (simp add: get_generator_classes_def getitem_def)

section \<open>The watch loop and the entry point\<close>







lemma handler_ascii:
  assumes "try_block fuel X cfg a markup_arg s = Some (Some e, s1)"
    and "is_Exception (exn_class e)" and "list_all is_ascii (exn_msg e)"
  shows "main fuel X cfg a markup_arg s =
           Some (if arg_verbosity a = Some DEBUG then Uncaught e
                 else Exited (case exitcode e of None \<Rightarrow> PyInt 1 | Some c \<Rightarrow> c),
                 s1\<lparr>logged := logged s1 @ [(CRITICAL, exn_msg e)]\<rparr>)"
  using assms by (simp add: main_def handler_def py_unicode_def)

lemma handler_non_ascii:
  assumes "try_block fuel X cfg a markup_arg s = Some (Some e, s1)"
    and "is_Exception (exn_class e)" and "\<not> list_all is_ascii (exn_msg e)"
  shows "main fuel X cfg a markup_arg s =
           Some (Uncaught (Exn UnicodeDecodeError
                   ''ascii codec cannot decode byte: ordinal not in range(128)'' None), s1)"
  using assms by (simp add: main_def handler_def py_unicode_def)

section \<open>Migration\<close>

lemma permalink_keys_split: "permalink_keys = url_keys @ save_as_keys"
  by (simp add: permalink_keys_def url_keys_def save_as_keys_def)




text \<open>
  C5. With a truthy \<open>CLEAN_URLS\<close> the first branch of the migration sets the four URL keys
  to their fixed values, whatever they were, and changes no other key.
\<close>

theorem clean_urls_migration:
  assumes "s ''CLEAN_URLS'' = Some v" and "truthy v"
  shows "fst (clean_urls_step s lg) ''ARTICLE_URL'' = Some (PyStr ''{slug}/'')
       \<and> fst (clean_urls_step s lg) ''ARTICLE_LANG_URL'' = Some (PyStr ''{slug}-{lang}/'')
       \<and> fst (clean_urls_step s lg) ''PAGE_URL'' = Some (PyStr ''pages/{slug}/'')
       \<and> fst (clean_urls_step s lg) ''PAGE_LANG_URL'' = Some (PyStr ''pages/{slug}-{lang}/'')
       \<and> (\<forall>k. k \<notin> set url_keys \<longrightarrow> fst (clean_urls_step s lg) k = s k)"
  using assms by (simp add: clean_urls_step_def get_flag_def url_keys_def)

lemma join_empty: "os_path_join [] b = b"
  by (simp add: os_path_join_def)

lemma join_relative: "b \<noteq> [] \<Longrightarrow> hd b \<noteq> CHR ''/'' \<Longrightarrow> suffix b (os_path_join a b)"
  by (auto simp: os_path_join_def suffix_def)

lemma prefix_settings_append:
  "prefix_settings st (ks1 @ ks2) s lg =
     (case prefix_settings st ks1 s lg of
        (None, s', lg') \<Rightarrow> prefix_settings st ks2 s' lg'
      | (Some e, s', lg') \<Rightarrow> (Some e, s', lg'))"
  by (induction ks1 arbitrary: s lg) (auto split: option.splits pyval.splits)

lemma prefix_settings_head:
  assumes d: "distinct ks1" and pres: "\<forall>k\<in>set ks1. \<exists>v. s k = Some (PyStr v)"
    and k: "k \<in> set ks1" "k \<notin> set ks2" and v: "s k = Some (PyStr v)"
  shows "fst (snd (prefix_settings st (ks1 @ ks2) s lg)) k = Some (PyStr (os_path_join st v))"
proof -
  obtain r s' lg' where h: "prefix_settings st ks1 s lg = (r, s', lg')"
    by (cases "prefix_settings st ks1 s lg")
  from prefix_settings_ok [OF d pres, of st lg] h k(1) v
  have r: "r = None" and sk: "s' k = Some (PyStr (os_path_join st v))" by auto
  from h r have "prefix_settings st (ks1 @ ks2) s lg = prefix_settings st ks2 s' lg'"
    by (simp add: prefix_settings_append)
  with k(2) sk show ?thesis by (simp add: prefix_settings_other)
qed

text \<open>
  C10. With a truthy \<open>CLEAN_URLS\<close> and a permalink structure that is a string, after the
  migration each of the four URL keys is \<open>os.path.join\<close> of the rewritten structure and
  the fixed clean-URL template of the key; the article URL ends with \<open>{slug}/\<close>.
\<close>

theorem clean_urls_then_permalink:
  assumes clean: "s ''CLEAN_URLS'' = Some v" "truthy v"
    and perm: "s ''ARTICLE_PERMALINK_STRUCTURE'' = Some (PyStr structure)"
  shows "fst (snd (handle_deprecation s lg)) ''ARTICLE_URL''
           = Some (PyStr (os_path_join (convert_structure structure) ''{slug}/''))
       \<and> fst (snd (handle_deprecation s lg)) ''ARTICLE_LANG_URL''
           = Some (PyStr (os_path_join (convert_structure structure) ''{slug}-{lang}/''))
       \<and> fst (snd (handle_deprecation s lg)) ''PAGE_URL''
           = Some (PyStr (os_path_join (convert_structure structure) ''pages/{slug}/''))
       \<and> fst (snd (handle_deprecation s lg)) ''PAGE_LANG_URL''
           = Some (PyStr (os_path_join (convert_structure structure) ''pages/{slug}-{lang}/''))
       \<and> suffix ''{slug}/'' (os_path_join (convert_structure structure) ''{slug}/'')"
proof (cases "structure = []")
  case True
  with clean perm show ?thesis
    by (simp add: handle_deprecation_def clean_urls_step_def permalink_step_def get_flag_def
        convert_structure_def join_empty)
next
  case False
  let ?st = "convert_structure structure"
  obtain s1 lg1 where c: "clean_urls_step s lg = (s1, lg1)" by (cases "clean_urls_step s lg")
  with clean have s1: "s1 = s(''ARTICLE_URL'' \<mapsto> PyStr ''{slug}/'',
                    ''ARTICLE_LANG_URL'' \<mapsto> PyStr ''{slug}-{lang}/'',
                    ''PAGE_URL'' \<mapsto> PyStr ''pages/{slug}/'',
                    ''PAGE_LANG_URL'' \<mapsto> PyStr ''pages/{slug}-{lang}/'')"
    by (auto simp: clean_urls_step_def get_flag_def)
  obtain lg2 where step: "handle_deprecation s lg = prefix_settings ?st (url_keys @ save_as_keys) s1 lg2"
    using False perm c s1
    by (simp add: handle_deprecation_def permalink_step_def get_flag_def permalink_keys_split)
  have d: "distinct url_keys" by (simp add: url_keys_def)
  have pres: "\<forall>k\<in>set url_keys. \<exists>v. s1 k = Some (PyStr v)" by (simp add: s1 url_keys_def)
  have u: "fst (snd (handle_deprecation s lg)) k = Some (PyStr (os_path_join ?st t))"
    if "k \<in> set url_keys" "s1 k = Some (PyStr t)" for k t
  proof -
    from that(1) have "k \<notin> set save_as_keys" by (auto simp: url_keys_def save_as_keys_def)
    from prefix_settings_head [OF d pres that(1) this that(2)] show ?thesis
      unfolding step .
  qed
  have suf: "suffix ''{slug}/'' (os_path_join ?st ''{slug}/'')"
    by (rule join_relative) simp_all
  have "fst (snd (handle_deprecation s lg)) ''ARTICLE_URL'' = Some (PyStr (os_path_join ?st ''{slug}/''))"
    by (rule u) (simp_all add: url_keys_def s1)
  moreover have "fst (snd (handle_deprecation s lg)) ''ARTICLE_LANG_URL'' = Some (PyStr (os_path_join ?st ''{slug}-{lang}/''))"
    by (rule u) (simp_all add: url_keys_def s1)
  moreover have "fst (snd (handle_deprecation s lg)) ''PAGE_URL'' = Some (PyStr (os_path_join ?st ''pages/{slug}/''))"
    by (rule u) (simp_all add: url_keys_def s1)
  moreover have "fst (snd (handle_deprecation s lg)) ''PAGE_LANG_URL'' = Some (PyStr (os_path_join ?st ''pages/{slug}-{lang}/''))"
    by (rule u) (simp_all add: url_keys_def s1)
  ultimately show ?thesis using suf by blast
qed

section \<open>Construction\<close>

lemma permalink_step_other:
  "k \<notin> set permalink_keys \<Longrightarrow> fst (snd (permalink_step s lg)) k = s k"
  by (auto simp: permalink_step_def Let_def prefix_settings_other split: option.splits pyval.splits)

lemma clean_urls_step_other:
  "k \<notin> set url_keys \<Longrightarrow> fst (clean_urls_step s lg) k = s k"
  by (simp add: clean_urls_step_def url_keys_def)

lemma handle_deprecation_other:
  assumes "k \<notin> set permalink_keys"
  shows "fst (snd (handle_deprecation s lg)) k = s k"
proof -
  obtain s1 lg1 where c: "clean_urls_step s lg = (s1, lg1)" by (cases "clean_urls_step s lg")
  from assms have "k \<notin> set url_keys" by (simp add: permalink_keys_split)
  from clean_urls_step_other [OF this, of s lg] c have "s1 k = s k" by simp
  moreover from c have "handle_deprecation s lg = permalink_step s1 lg1"
    by (simp add: handle_deprecation_def)
  ultimately show ?thesis using permalink_step_other [OF assms, of s1 lg1] by simp
qed

lemma str_or_same: "s' k = s k \<Longrightarrow> str_or a s' k = str_or a s k"
  by (cases a) (simp_all add: str_or_def getitem_def)

lemma init_no_outside_call:
  "world (snd (init X settings_arg path_arg theme_arg output_arg markup_arg delete_arg s)) = world s
   \<and> trace (snd (init X settings_arg path_arg theme_arg output_arg markup_arg delete_arg s)) = trace s"
  by (simp add: init_def Let_def split: sum.splits prod.splits option.splits)

lemma init_theme_missing:
  assumes th: "str_or theme_arg (effective_settings X settings_arg) ''THEME'' = Inr (PyStr t)"
    and no: "\<not> path_exists X (world s) t" "\<not> path_exists X (world s) (bundled_theme X t)"
  shows "isl (fst (init X settings_arg path_arg theme_arg output_arg markup_arg delete_arg s))"
proof -
  let ?cfg = "effective_settings X settings_arg"
  have same: "str_or theme_arg cfg' ''THEME'' = Inr (PyStr t)"
    if "handle_deprecation ?cfg (logged s) = (r, cfg', lg)" for r cfg' lg
  proof -
    have "''THEME'' \<notin> set permalink_keys" by (simp add: permalink_keys_def)
    from handle_deprecation_other [OF this, of ?cfg "logged s"] that
    have "cfg' ''THEME'' = ?cfg ''THEME''" by simp
    then have "str_or theme_arg cfg' ''THEME'' = str_or theme_arg ?cfg ''THEME''"
      by (rule str_or_same)
    with th show ?thesis by simp
  qed
  have ft: "isl (find_theme X (world s) (PyStr t) theme_arg)"
    using no by (simp add: find_theme_def)
  show ?thesis
    using ft by (auto simp: init_def Let_def dest!: same split: sum.splits prod.splits option.splits)
qed

text \<open>
  C7. Construction fails, with the state of the world and the trace untouched, when no
  content path is given and the setting \<open>PATH\<close> is falsy or missing. It fails whenever the
  theme exists neither as given nor under the bundled themes. When the earlier steps of
  construction succeed and the given theme does not exist, the result is the object with
  the bundled theme if that exists, and the exception \<open>Impossible to find the theme\<close> if
  not. Construction never makes an outside call: no generator is built and no build runs.
\<close>

theorem construction_checks:
  assumes cfg: "cfg = effective_settings X settings_arg"
  shows
   "(path_arg = None \<or> path_arg = Some [] \<longrightarrow>
       (\<forall>v. cfg ''PATH'' = Some v \<longrightarrow> \<not> truthy v \<longrightarrow>
          init X settings_arg path_arg theme_arg output_arg markup_arg delete_arg s =
            (Inl (Exn Exception
              ''You need to specify a path containing the content (see pelican --help for more information)''
              None), s))
     \<and> (cfg ''PATH'' = None \<longrightarrow>
          init X settings_arg path_arg theme_arg output_arg markup_arg delete_arg s =
            (Inl (Exn KeyError ''PATH'' None), s)))
  \<and> (str_or theme_arg cfg ''THEME'' = Inr (PyStr t) \<longrightarrow>
       \<not> path_exists X (world s) t \<longrightarrow> \<not> path_exists X (world s) (bundled_theme X t) \<longrightarrow>
       isl (fst (init X settings_arg path_arg theme_arg output_arg markup_arg delete_arg s)))
  \<and> (content_path path_arg cfg = Inr pth \<longrightarrow>
     handle_deprecation cfg (logged s) = (None, cfg', lg) \<longrightarrow>
     str_or theme_arg cfg' ''THEME'' = Inr (PyStr t) \<longrightarrow>
     str_or output_arg cfg' ''OUTPUT_PATH'' = Inr (PyStr out) \<longrightarrow>
     list_or markup_arg cfg' ''MARKUP'' = Inr mk \<longrightarrow>
     bool_or delete_arg cfg' ''DELETE_OUTPUT_DIRECTORY'' = Inr del \<longrightarrow>
     \<not> path_exists X (world s) t \<longrightarrow>
       init X settings_arg path_arg theme_arg output_arg markup_arg delete_arg s =
         (if path_exists X (world s) (bundled_theme X t)
          then Inr \<lparr>path = pth, settings = cfg', theme = bundled_theme X t,
                    output_path = realpath X (world s) out, markup = mk, delete_outputdir = del\<rparr>
          else Inl (Exn Exception
                 (''Impossible to find the theme '' @ (case theme_arg of None \<Rightarrow> ''None'' | Some a \<Rightarrow> a))
                 None),
          s\<lparr>logged := lg\<rparr>))
  \<and> world (snd (init X settings_arg path_arg theme_arg output_arg markup_arg delete_arg s)) = world s
  \<and> trace (snd (init X settings_arg path_arg theme_arg output_arg markup_arg delete_arg s)) = trace s"
proof -
  let ?init = "init X settings_arg path_arg theme_arg output_arg markup_arg delete_arg s"
  have a: "?init = (Inl (Exn Exception
              ''You need to specify a path containing the content (see pelican --help for more information)''
              None), s)"
    if "path_arg = None \<or> path_arg = Some []" "cfg ''PATH'' = Some v" "\<not> truthy v" for v
    using that cfg by (auto simp: init_def content_path_def str_or_def getitem_def)
  have a': "?init = (Inl (Exn KeyError ''PATH'' None), s)"
    if "path_arg = None \<or> path_arg = Some []" "cfg ''PATH'' = None"
    using that cfg by (auto simp: init_def content_path_def str_or_def getitem_def)
  have b: "isl (fst ?init)"
    if "str_or theme_arg cfg ''THEME'' = Inr (PyStr t)"
       "\<not> path_exists X (world s) t" "\<not> path_exists X (world s) (bundled_theme X t)"
    using that unfolding cfg by (rule init_theme_missing)
  have c: "?init =
         (if path_exists X (world s) (bundled_theme X t)
          then Inr \<lparr>path = pth, settings = cfg', theme = bundled_theme X t,
                    output_path = realpath X (world s) out, markup = mk, delete_outputdir = del\<rparr>
          else Inl (Exn Exception
                 (''Impossible to find the theme '' @ (case theme_arg of None \<Rightarrow> ''None'' | Some a \<Rightarrow> a))
                 None),
          s\<lparr>logged := lg\<rparr>)"
    if "content_path path_arg cfg = Inr pth"
     "handle_deprecation cfg (logged s) = (None, cfg', lg)"
     "str_or theme_arg cfg' ''THEME'' = Inr (PyStr t)"
     "str_or output_arg cfg' ''OUTPUT_PATH'' = Inr (PyStr out)"
     "list_or markup_arg cfg' ''MARKUP'' = Inr mk"
     "bool_or delete_arg cfg' ''DELETE_OUTPUT_DIRECTORY'' = Inr del"
     "\<not> path_exists X (world s) t"
    using that cfg by (simp add: init_def py_realpath_def find_theme_def)
  from a a' b c init_no_outside_call [of X settings_arg path_arg theme_arg output_arg markup_arg delete_arg s]
  show ?thesis by blast
qed

section \<open>The properties on the example sites\<close>

lemma scenario_classes:
  "get_generator_classes (settings scenario) = Inr [ArticlesGenerator, PagesGenerator, StaticGenerator]"
  by (simp add: get_generator_classes_def getitem_def scenario_def example_config_def)


lemma scenario_built:
  "construct_generators stub scenario [ArticlesGenerator, PagesGenerator, StaticGenerator]
     ((start scenario_fs)\<lparr>trace := trace (start scenario_fs) @ [RunCalled]\<rparr>)
   = (Inr three_generators, built_state)"
  by (simp add: call_def stub_def start_def built_state_def three_generators_def)


lemma failing_built:
  "construct_generators failing scenario [ArticlesGenerator, PagesGenerator, StaticGenerator]
     ((start scenario_fs)\<lparr>trace := trace (start scenario_fs) @ [RunCalled]\<rparr>)
   = (Inr three_generators, built_state)"
  by (simp add: call_def stub_def failing_def start_def built_state_def three_generators_def)

lemma stub_context: "context_phase stub three_generators built_state = (None, context_state)"
  by (simp add: call_def stub_def built_state_def context_state_def three_generators_def)

lemma failing_context:
  "context_phase failing three_generators built_state
   = (Some (Exn (OtherException ''ParseError'') ''bad page'' None), failed_state)"
  by (simp add: call_def stub_def failing_def built_state_def failed_state_def three_generators_def)






text \<open>C4 on the scenario, with generators that return and with a page generator that
  raises.\<close>

theorem phase_order_witness:
  "contexts_first (new_events (start scenario_fs) (snd (run stub scenario (start scenario_fs))))
   \<and> new_events (start scenario_fs) context_state =
       [RunCalled, Construct ArticlesGenerator, Construct PagesGenerator,
        Construct StaticGenerator, GenerateContext ArticlesGenerator,
        GenerateContext PagesGenerator, GenerateContext StaticGenerator]
   \<and> run stub scenario (start scenario_fs) = finish stub scenario three_generators context_state
   \<and> run failing scenario (start scenario_fs)
       = (Some (Exn (OtherException ''ParseError'') ''bad page'' None), failed_state)
   \<and> list_all (\<lambda>x. \<not> is_later x) (new_events (start scenario_fs) failed_state)"
proof -
  from phase_order [of "start scenario_fs" stub scenario
      "[ArticlesGenerator, PagesGenerator, StaticGenerator]" three_generators built_state
      context_state]
    scenario_classes scenario_built stub_context
  have a: "contexts_first (new_events (start scenario_fs) (snd (run stub scenario (start scenario_fs))))
     \<and> new_events (start scenario_fs) context_state =
         RunCalled # map Construct [ArticlesGenerator, PagesGenerator, StaticGenerator]
           @ context_calls three_generators
     \<and> run stub scenario (start scenario_fs) = finish stub scenario three_generators context_state"
    by blast
  from phase_order [of "start scenario_fs" failing scenario
      "[ArticlesGenerator, PagesGenerator, StaticGenerator]" three_generators built_state
      failed_state "Exn (OtherException ''ParseError'') ''bad page'' None"]
    scenario_classes failing_built failing_context
  have b: "run failing scenario (start scenario_fs)
       = (Some (Exn (OtherException ''ParseError'') ''bad page'' None), failed_state)
     \<and> list_all (\<lambda>x. \<not> is_later x) (new_events (start scenario_fs) failed_state)"
    by blast
  have c: "RunCalled # map Construct [ArticlesGenerator, PagesGenerator, StaticGenerator]
           @ context_calls three_generators =
       [RunCalled, Construct ArticlesGenerator, Construct PagesGenerator,
        Construct StaticGenerator, GenerateContext ArticlesGenerator,
        GenerateContext PagesGenerator, GenerateContext StaticGenerator]"
    by (simp add: context_calls_def three_generators_def)
  from a b show ?thesis unfolding c by blast
qed

text \<open>C6 on the example settings, without and with the PDF generator.\<close>

theorem pipeline_assembly_witness:
  "example_config ''PDF_GENERATOR'' = Some (PyBool False)
   \<and> get_generator_classes example_config
       = Inr [ArticlesGenerator, PagesGenerator, StaticGenerator]
   \<and> (example_config(''PDF_GENERATOR'' \<mapsto> PyBool True)) ''PDF_GENERATOR'' = Some (PyBool True)
   \<and> get_generator_classes (example_config(''PDF_GENERATOR'' \<mapsto> PyBool True))
       = Inr [ArticlesGenerator, PagesGenerator, StaticGenerator, PdfGenerator]"
proof -
  have a: "example_config ''PDF_GENERATOR'' = Some (PyBool False)"
    by (simp add: example_config_def)
  have b: "(example_config(''PDF_GENERATOR'' \<mapsto> PyBool True)) ''PDF_GENERATOR'' = Some (PyBool True)"
    by simp
  from pipeline_assembly [of example_config "PyBool False", OF a]
    pipeline_assembly [of "example_config(''PDF_GENERATOR'' \<mapsto> PyBool True)" "PyBool True", OF b]
    a b show ?thesis by simp
qed


lemma convert_example: "convert_structure ''/%Y/%(category)s'' = ''{date:%Y}/{category}''"
  by (simp add: convert_structure_def match_named_def is_word_char_def in_A_z_def)






text \<open>C5 on example settings with \<open>CLEAN_URLS\<close> set: URL keys fixed, a save-as key
  untouched by the first branch.\<close>

theorem clean_urls_migration_witness:
  "clean_config ''CLEAN_URLS'' = Some (PyBool True) \<and> truthy (PyBool True)
   \<and> fst (clean_urls_step clean_config []) ''ARTICLE_URL'' = Some (PyStr ''{slug}/'')
   \<and> fst (clean_urls_step clean_config []) ''PAGE_LANG_URL'' = Some (PyStr ''pages/{slug}-{lang}/'')
   \<and> fst (clean_urls_step clean_config []) ''PAGE_SAVE_AS'' = Some (PyStr ''pages/{slug}.html'')"
proof -
  have a: "clean_config ''CLEAN_URLS'' = Some (PyBool True)" by (simp add: clean_config_def)
  have b: "truthy (PyBool True)" by simp
  have k: "''PAGE_SAVE_AS'' \<notin> set url_keys" by (simp add: url_keys_def)
  have v: "clean_config ''PAGE_SAVE_AS'' = Some (PyStr ''pages/{slug}.html'')"
    by (simp add: clean_config_def permalink_config_def example_config_def)
  note m = clean_urls_migration [of clean_config "PyBool True" "[]", OF a b]
  from m have m1: "fst (clean_urls_step clean_config []) ''ARTICLE_URL'' = Some (PyStr ''{slug}/'')"
    by blast
  from m have m2: "fst (clean_urls_step clean_config []) ''PAGE_LANG_URL'' = Some (PyStr ''pages/{slug}-{lang}/'')"
    by blast
  from m k have "fst (clean_urls_step clean_config []) ''PAGE_SAVE_AS'' = clean_config ''PAGE_SAVE_AS''"
    by blast
  with v have m3: "fst (clean_urls_step clean_config []) ''PAGE_SAVE_AS'' = Some (PyStr ''pages/{slug}.html'')"
    by simp
  from a b m1 m2 m3 show ?thesis by blast
qed

text \<open>C10 on the same settings, which also carry the structure \<open>/%Y/%(category)s\<close>.\<close>

theorem clean_urls_then_permalink_witness:
  "clean_config ''CLEAN_URLS'' = Some (PyBool True) \<and> truthy (PyBool True)
   \<and> clean_config ''ARTICLE_PERMALINK_STRUCTURE'' = Some (PyStr ''/%Y/%(category)s'')
   \<and> fst (snd (handle_deprecation clean_config [])) ''ARTICLE_URL''
        = Some (PyStr ''{date:%Y}/{category}/{slug}/'')
   \<and> fst (snd (handle_deprecation clean_config [])) ''PAGE_LANG_URL''
        = Some (PyStr ''{date:%Y}/{category}/pages/{slug}-{lang}/'')"
proof -
  have a: "clean_config ''CLEAN_URLS'' = Some (PyBool True)" by (simp add: clean_config_def)
  have b: "truthy (PyBool True)" by simp
  have c: "clean_config ''ARTICLE_PERMALINK_STRUCTURE'' = Some (PyStr ''/%Y/%(category)s'')"
    by (simp add: clean_config_def permalink_config_def)
  have j: "os_path_join ''{date:%Y}/{category}'' ''{slug}/'' = ''{date:%Y}/{category}/{slug}/''"
     "os_path_join ''{date:%Y}/{category}'' ''pages/{slug}-{lang}/''
        = ''{date:%Y}/{category}/pages/{slug}-{lang}/''"
    by (simp_all add: os_path_join_def)
  note m = clean_urls_then_permalink [of clean_config "PyBool True" "''/%Y/%(category)s''" "[]",
      OF a b c, unfolded convert_example j]
  from m a b c show ?thesis by blast
qed

lemma no_path_fails:
  "try_block 1 stub example_config no_args None (start scenario_fs)
   = Some (Some (Exn Exception
        ''You need to specify a path containing the content (see pelican --help for more information)''
        None), start scenario_fs)"
  by (simp add: try_block_def init_def effective_settings_def content_path_def str_or_def
      getitem_def no_args_def example_config_def)

lemma no_path_fails_debug:
  "try_block 1 stub example_config (no_args\<lparr>arg_verbosity := Some DEBUG\<rparr>) None (start scenario_fs)
   = Some (Some (Exn Exception
        ''You need to specify a path containing the content (see pelican --help for more information)''
        None), start scenario_fs)"
  by (simp add: try_block_def init_def effective_settings_def content_path_def str_or_def
      getitem_def no_args_def example_config_def)

lemma writer_fails:
  "try_block 1 exiting example_config site_args None (start scenario_fs)
   = Some (Some (Exn (OtherException ''WriterError'') ''disk full'' (Some (PyInt 3))),
           writer_failed_state)"
  by (simp add: try_block_def init_def effective_settings_def content_path_def str_or_def
      list_or_def bool_or_def py_realpath_def find_theme_def handle_deprecation_def
      clean_urls_step_def permalink_step_def get_flag_def getitem_def no_args_def site_args_def
      example_config_def exiting_def stub_def start_def scenario_fs_def run_def
      get_generator_classes_def call_def cleanup_decision_def writer_failed_state_def)

lemma handler_ascii_examples:
  "main 1 stub example_config no_args None (start scenario_fs)
     = Some (Exited (PyInt 1),
         \<lparr>world = scenario_fs, trace = [],
          logged = [(CRITICAL, ''You need to specify a path containing the content (see pelican --help for more information)'')]\<rparr>)
   \<and> main 1 stub example_config (no_args\<lparr>arg_verbosity := Some DEBUG\<rparr>) None (start scenario_fs)
     = Some (Uncaught (Exn Exception
           ''You need to specify a path containing the content (see pelican --help for more information)''
           None),
         \<lparr>world = scenario_fs, trace = [],
          logged = [(CRITICAL, ''You need to specify a path containing the content (see pelican --help for more information)'')]\<rparr>)
   \<and> main 1 exiting example_config site_args None (start scenario_fs)
     = Some (Exited (PyInt 3), writer_failed_state\<lparr>logged := [(CRITICAL, ''disk full'')]\<rparr>)"
proof -
  have e: "is_Exception (exn_class (Exn Exception
        ''You need to specify a path containing the content (see pelican --help for more information)''
        None))" by simp
  have m: "list_all is_ascii (exn_msg (Exn Exception
        ''You need to specify a path containing the content (see pelican --help for more information)''
        None))" by (simp add: is_ascii_def)
  have e': "is_Exception (exn_class (Exn (OtherException ''WriterError'') ''disk full'' (Some (PyInt 3))))"
    by simp
  have m': "list_all is_ascii (exn_msg (Exn (OtherException ''WriterError'') ''disk full'' (Some (PyInt 3))))"
    by (simp add: is_ascii_def)
  from handler_ascii [OF writer_fails e' m']
  have w: "main 1 exiting example_config site_args None (start scenario_fs)
     = Some (Exited (PyInt 3), writer_failed_state\<lparr>logged := [(CRITICAL, ''disk full'')]\<rparr>)"
    by (simp add: site_args_def no_args_def writer_failed_state_def)
  from handler_ascii [OF no_path_fails e m] handler_ascii [OF no_path_fails_debug e m] w
  show ?thesis by (simp add: no_args_def start_def)
qed

lemma accent_theme_fails:
  "try_block 1 stub example_config accent_args None (start scenario_fs)
   = Some (Some (Exn Exception (''Impossible to find the theme '' @ accent_theme) None),
           start scenario_fs)"
  by (simp add: try_block_def init_def effective_settings_def content_path_def str_or_def
      list_or_def bool_or_def py_realpath_def find_theme_def bundled_theme_def
      handle_deprecation_def clean_urls_step_def permalink_step_def get_flag_def getitem_def
      no_args_def accent_args_def accent_theme_def example_config_def stub_def start_def
      scenario_fs_def)

text \<open>
  C9 is what the handler is written to do, and it does it for a message in ASCII
  (\<open>handler_ascii\<close>). It misses the case of a message with a byte above 127. Asked for a
  theme whose name has an accented letter and that does not exist, construction raises
  the \<open>Exception\<close> of line 59 with that name in its message; \<open>unicode(e)\<close> then raises
  \<open>UnicodeDecodeError\<close> inside the handler: nothing is logged, there is no exit with code
  1, and the decoding error leaves \<open>main\<close>.
\<close>

theorem non_ascii_message_escapes_handler:
  "try_block 1 stub example_config accent_args None (start scenario_fs)
     = Some (Some (Exn Exception (''Impossible to find the theme '' @ accent_theme) None),
             start scenario_fs)
   \<and> is_Exception Exception
   \<and> arg_verbosity accent_args \<noteq> Some DEBUG
   \<and> main 1 stub example_config accent_args None (start scenario_fs)
     = Some (Uncaught (Exn UnicodeDecodeError
               ''ascii codec cannot decode byte: ordinal not in range(128)'' None),
             start scenario_fs)
   \<and> logged (start scenario_fs) = []"
proof -
  have e: "is_Exception (exn_class (Exn Exception (''Impossible to find the theme '' @ accent_theme) None))"
    by simp
  have m: "\<not> list_all is_ascii (exn_msg (Exn Exception (''Impossible to find the theme '' @ accent_theme) None))"
    by (simp add: accent_theme_def is_ascii_def)
  have v: "arg_verbosity accent_args \<noteq> Some DEBUG" by (simp add: accent_args_def no_args_def)
  have l: "logged (start scenario_fs) = []" by (simp add: start_def)
  from handler_non_ascii [OF accent_theme_fails e m] accent_theme_fails v l
  show ?thesis by simp
qed


text \<open>C7 on three constructions: no content path; a theme found nowhere; a theme found
  under the bundled themes only.\<close>

theorem construction_checks_witness:
  "fst (init stub None None None None None False (start scenario_fs))
     = Inl (Exn Exception
         ''You need to specify a path containing the content (see pelican --help for more information)''
         None)
   \<and> isl (fst (init stub None (Some ''/a/b/'') (Some ''simple'') None None False
                (start scenario_fs)))
   \<and> fst (init stub None (Some ''/a/b/'') (Some ''simple'') None None False
                (start scenario_fs))
       = Inl (Exn Exception ''Impossible to find the theme simple'' None)
   \<and> fst (init stub None (Some ''/a/b/'') (Some ''simple'') None None False (start bundled_fs))
       = Inr \<lparr>path = ''/a/b'', settings = example_config,
              theme = ''/usr/lib/pelican/themes/simple'', output_path = ''output/'',
              markup = PyList [PyStr ''rst'', PyStr ''md''], delete_outputdir = PyBool False\<rparr>
   \<and> trace (snd (init stub None (Some ''/a/b/'') (Some ''simple'') None None False
                (start bundled_fs))) = []"
proof -
  have cfg: "example_config = effective_settings stub None"
    by (simp add: effective_settings_def stub_def)
  have p: "example_config ''PATH'' = Some (PyStr [])" "\<not> truthy (PyStr [])"
    by (simp_all add: example_config_def)
  have cp: "content_path (Some ''/a/b/'') example_config = Inr ''/a/b''"
    by (simp add: content_path_def str_or_def)
  have hd: "handle_deprecation example_config (logged (start w)) = (None, example_config, [])"
    for w :: fs
    by (simp add: handle_deprecation_def clean_urls_step_def permalink_step_def get_flag_def
        example_config_def start_def)
  have th: "str_or (Some ''simple'') example_config ''THEME'' = Inr (PyStr ''simple'')"
    by (simp add: str_or_def)
  have out: "str_or None example_config ''OUTPUT_PATH'' = Inr (PyStr ''output/'')"
    by (simp add: str_or_def getitem_def example_config_def)
  have mk: "list_or None example_config ''MARKUP'' = Inr (PyList [PyStr ''rst'', PyStr ''md''])"
    by (simp add: list_or_def getitem_def example_config_def)
  have del: "bool_or False example_config ''DELETE_OUTPUT_DIRECTORY'' = Inr (PyBool False)"
    by (simp add: bool_or_def getitem_def example_config_def)
  have ex: "\<not> path_exists stub (world (start scenario_fs)) ''simple''"
     "\<not> path_exists stub (world (start scenario_fs)) (bundled_theme stub ''simple'')"
     "\<not> path_exists stub (world (start bundled_fs)) ''simple''"
     "path_exists stub (world (start bundled_fs)) (bundled_theme stub ''simple'')"
    by (simp_all add: stub_def start_def scenario_fs_def bundled_fs_def bundled_theme_def)
  have bt: "bundled_theme stub ''simple'' = ''/usr/lib/pelican/themes/simple''"
    by (simp add: bundled_theme_def stub_def)
  have rp: "realpath stub (world (start bundled_fs)) ''output/'' = ''output/''"
    by (simp add: stub_def)
  have lg: "(start w)\<lparr>logged := []\<rparr> = start w" for w :: fs by (simp add: start_def)
  have tr: "trace (start w) = []" for w :: fs by (simp add: start_def)
  note c1 = construction_checks [OF cfg, where path_arg = None and theme_arg = None
      and output_arg = None and markup_arg = None and delete_arg = False
      and s = "start scenario_fs"]
  note c2 = construction_checks [OF cfg, where path_arg = "Some ''/a/b/''"
      and theme_arg = "Some ''simple''" and t = "''simple''" and s = "start scenario_fs"
      and pth = "''/a/b''" and cfg' = example_config and lg = "[]" and output_arg = None
      and out = "''output/''" and markup_arg = None
      and mk = "PyList [PyStr ''rst'', PyStr ''md'']" and delete_arg = False
      and del = "PyBool False"]
  note c3 = construction_checks [OF cfg, where path_arg = "Some ''/a/b/''"
      and theme_arg = "Some ''simple''" and t = "''simple''" and s = "start bundled_fs"
      and pth = "''/a/b''" and cfg' = example_config and lg = "[]" and output_arg = None
      and out = "''output/''" and markup_arg = None
      and mk = "PyList [PyStr ''rst'', PyStr ''md'']" and delete_arg = False
      and del = "PyBool False"]
  from c1 p have "init stub None None None None None False (start scenario_fs)
     = (Inl (Exn Exception
         ''You need to specify a path containing the content (see pelican --help for more information)''
         None), start scenario_fs)" by blast
  then have a: "fst (init stub None None None None None False (start scenario_fs))
     = Inl (Exn Exception
         ''You need to specify a path containing the content (see pelican --help for more information)''
         None)" by simp
  from c2 th ex(1,2)
  have b1: "isl (fst (init stub None (Some ''/a/b/'') (Some ''simple'') None None False
                (start scenario_fs)))" by blast
  from c2 cp hd th out mk del ex(1)
  have "init stub None (Some ''/a/b/'') (Some ''simple'') None None False (start scenario_fs)
     = (if path_exists stub (world (start scenario_fs)) (bundled_theme stub ''simple'')
          then Inr \<lparr>path = ''/a/b'', settings = example_config, theme = bundled_theme stub ''simple'',
                    output_path = realpath stub (world (start scenario_fs)) ''output/'',
                    markup = PyList [PyStr ''rst'', PyStr ''md''], delete_outputdir = PyBool False\<rparr>
          else Inl (Exn Exception
                 (''Impossible to find the theme '' @ (case Some ''simple'' of None \<Rightarrow> ''None'' | Some a \<Rightarrow> a))
                 None),
          (start scenario_fs)\<lparr>logged := []\<rparr>)" by blast
  with ex(2) have b2: "fst (init stub None (Some ''/a/b/'') (Some ''simple'') None None False
                (start scenario_fs))
       = Inl (Exn Exception ''Impossible to find the theme simple'' None)" by simp
  from c3 cp hd th out mk del ex(3)
  have "init stub None (Some ''/a/b/'') (Some ''simple'') None None False (start bundled_fs)
     = (if path_exists stub (world (start bundled_fs)) (bundled_theme stub ''simple'')
          then Inr \<lparr>path = ''/a/b'', settings = example_config, theme = bundled_theme stub ''simple'',
                    output_path = realpath stub (world (start bundled_fs)) ''output/'',
                    markup = PyList [PyStr ''rst'', PyStr ''md''], delete_outputdir = PyBool False\<rparr>
          else Inl (Exn Exception
                 (''Impossible to find the theme '' @ (case Some ''simple'' of None \<Rightarrow> ''None'' | Some a \<Rightarrow> a))
                 None),
          (start bundled_fs)\<lparr>logged := []\<rparr>)" by blast
  with ex(4) have c: "fst (init stub None (Some ''/a/b/'') (Some ''simple'') None None False (start bundled_fs))
       = Inr \<lparr>path = ''/a/b'', settings = example_config,
              theme = ''/usr/lib/pelican/themes/simple'', output_path = ''output/'',
              markup = PyList [PyStr ''rst'', PyStr ''md''], delete_outputdir = PyBool False\<rparr>"
    by (simp add: bt rp)
  from c3 have d: "trace (snd (init stub None (Some ''/a/b/'') (Some ''simple'') None None False
                (start bundled_fs))) = []" unfolding tr by blast
  from a b1 b2 c d show ?thesis by blast
qed

end
